theory Spec2Isabelle
  imports Complex_Main
begin

section \<open>Numbers\<close>

text \<open>
  The engine computes with Python floats. They are idealised here as the reals: every
  arithmetic operation is exact, and there is no NaN and no infinity. A floating-point sum
  is rounded, so a result that would rest on a sum being exact (the sum of two lattice
  points being a lattice point, a bounding box being exactly as wide as its cell) takes
  that as a hypothesis instead of deriving it. Python's one-argument \<^verbatim>\<open>round\<close> rounds to the nearest
  integer and resolves a tie towards the even neighbour (\<^verbatim>\<open>round(0.5) == 0\<close>,
  \<^verbatim>\<open>round(1.5) == 2\<close>, \<^verbatim>\<open>round(2.5) == 2\<close>); \<open>py_round\<close> is that function.
\<close>

definition py_round :: "real \<Rightarrow> int" where
  "py_round v =
     (let f = \<lfloor>v\<rfloor>; d = v - of_int f
      in if d < 1 / 2 then f
         else if 1 / 2 < d then f + 1
         else if even f then f else f + 1)"

section \<open>Orientation\<close>

datatype orientation = N | S | FN | FS

text \<open>\<^verbatim>\<open>Orientation.value\<close> and the lookup \<^verbatim>\<open>Orientation(s)\<close>, which raises
  \<^verbatim>\<open>ValueError\<close> on any other string.\<close>

fun orientation_value :: "orientation \<Rightarrow> string" where
  "orientation_value N = ''N''"
| "orientation_value S = ''S''"
| "orientation_value FN = ''FN''"
| "orientation_value FS = ''FS''"

definition Orientation :: "string \<Rightarrow> orientation option" where
  "Orientation s =
     (if s = ''N'' then Some N
      else if s = ''S'' then Some S
      else if s = ''FN'' then Some FN
      else if s = ''FS'' then Some FS
      else None)"

section \<open>SiteInfo\<close>

text \<open>
  The two pitches of the site grid. Every method below divides by a pitch, so in Python
  a \<^verbatim>\<open>SiteInfo\<close> with a zero pitch raises \<^verbatim>\<open>ZeroDivisionError\<close> in each of them (and
  \<^verbatim>\<open>Micro.__init__\<close> calls \<^verbatim>\<open>to_grid_coords\<close>, so no \<^verbatim>\<open>Micro\<close> with a zero pitch is ever
  constructed). The functions of this theory describe the code on grids with
  \<open>site_ok\<close>; results about them carry that hypothesis wherever a division is involved.
\<close>

record site_info =
  site_width :: real
  site_height :: real

definition SiteInfo :: "real \<Rightarrow> real \<Rightarrow> site_info" where
  "SiteInfo w h = \<lparr>site_width = w, site_height = h\<rparr>"

definition default_site :: site_info where
  "default_site = SiteInfo (14 / 100) (9 / 10)"

definition site_ok :: "site_info \<Rightarrow> bool" where
  "site_ok si \<longleftrightarrow> site_width si \<noteq> 0 \<and> site_height si \<noteq> 0"

definition snap_to_grid :: "site_info \<Rightarrow> real \<Rightarrow> real \<Rightarrow> real \<times> real" where
  "snap_to_grid si x y =
     (of_int (py_round (x / site_width si)) * site_width si,
      of_int (py_round (y / site_height si)) * site_height si)"

definition to_grid_coords :: "site_info \<Rightarrow> real \<Rightarrow> real \<Rightarrow> int \<times> int" where
  "to_grid_coords si x y =
     (py_round (x / site_width si), py_round (y / site_height si))"

definition from_grid_coords :: "site_info \<Rightarrow> int \<Rightarrow> int \<Rightarrow> real \<times> real" where
  "from_grid_coords si gx gy = (of_int gx * site_width si, of_int gy * site_height si)"

section \<open>Cell\<close>

text \<open>
  A \<^verbatim>\<open>Cell\<close> object with every attribute it carries: the six dataclass fields and the
  ones \<^verbatim>\<open>__post_init__\<close> adds (absolute position, path, site info, the two pairs of grid
  coordinates and the cached bounding box).
\<close>

record cell =
  cell_name :: string
  cell_x :: real
  cell_y :: real
  cell_orientation :: orientation
  cell_width :: real
  cell_height :: real
  absolute_x :: real
  absolute_y :: real
  cell_path :: string
  cell_site_info :: site_info
  cell_grid_x :: int
  cell_grid_y :: int
  cell_rel_grid_x :: int
  cell_rel_grid_y :: int
  bbox_min_x :: real
  bbox_min_y :: real
  bbox_max_x :: real
  bbox_max_y :: real

definition cell_update_grid_coordinates :: "cell \<Rightarrow> cell" where
  "cell_update_grid_coordinates c =
     (let (gx, gy) = to_grid_coords (cell_site_info c) (absolute_x c) (absolute_y c);
          (rx, ry) = to_grid_coords (cell_site_info c) (cell_x c) (cell_y c)
      in c\<lparr>cell_grid_x := gx, cell_grid_y := gy, cell_rel_grid_x := rx, cell_rel_grid_y := ry\<rparr>)"

definition cell_update_bbox :: "cell \<Rightarrow> cell" where
  "cell_update_bbox c =
     c\<lparr>bbox_min_x := absolute_x c, bbox_min_y := absolute_y c,
       bbox_max_x := absolute_x c + cell_width c, bbox_max_y := absolute_y c + cell_height c\<rparr>"

text \<open>The constructor followed by \<^verbatim>\<open>__post_init__\<close>.\<close>

definition Cell :: "string \<Rightarrow> real \<Rightarrow> real \<Rightarrow> orientation \<Rightarrow> real \<Rightarrow> real \<Rightarrow> cell" where
  "Cell n x y ori w h =
     cell_update_bbox (cell_update_grid_coordinates
       \<lparr>cell_name = n, cell_x = x, cell_y = y, cell_orientation = ori,
        cell_width = w, cell_height = h,
        absolute_x = x, absolute_y = y, cell_path = n, cell_site_info = default_site,
        cell_grid_x = 0, cell_grid_y = 0, cell_rel_grid_x = 0, cell_rel_grid_y = 0,
        bbox_min_x = 0, bbox_min_y = 0, bbox_max_x = 0, bbox_max_y = 0\<rparr>)"

text \<open>The optional \<^verbatim>\<open>site_info\<close> argument replaces the cell's own when it is given
  (a dataclass instance is always truthy).\<close>

definition with_site :: "site_info option \<Rightarrow> cell \<Rightarrow> cell" where
  "with_site so c = (case so of None \<Rightarrow> c | Some si \<Rightarrow> c\<lparr>cell_site_info := si\<rparr>)"

definition set_rel_position :: "real \<Rightarrow> real \<Rightarrow> site_info option \<Rightarrow> cell \<Rightarrow> cell" where
  "set_rel_position rel_x rel_y so c =
     cell_update_bbox (cell_update_grid_coordinates
       ((with_site so c)\<lparr>cell_x := rel_x, cell_y := rel_y\<rparr>))"

definition set_absolute_position :: "real \<Rightarrow> real \<Rightarrow> site_info option \<Rightarrow> cell \<Rightarrow> cell" where
  "set_absolute_position ox oy so c =
     (let c1 = with_site so c
      in cell_update_bbox (cell_update_grid_coordinates
           (c1\<lparr>absolute_x := ox + cell_x c1, absolute_y := oy + cell_y c1\<rparr>)))"

definition cell_set_hierarchical_path :: "string \<Rightarrow> cell \<Rightarrow> cell" where
  "cell_set_hierarchical_path parent_path c =
     (if parent_path \<noteq> [] then c\<lparr>cell_path := parent_path @ ''/'' @ cell_name c\<rparr>
      else c\<lparr>cell_path := cell_name c\<rparr>)"

definition set_orientation :: "orientation \<Rightarrow> cell \<Rightarrow> cell" where
  "set_orientation ori c = c\<lparr>cell_orientation := ori\<rparr>"

definition set_size :: "real \<Rightarrow> real \<Rightarrow> cell \<Rightarrow> cell" where
  "set_size w h c = cell_update_bbox (c\<lparr>cell_width := w, cell_height := h\<rparr>)"

definition get_placement_origin :: "cell \<Rightarrow> real \<times> real" where
  "get_placement_origin c =
     (case cell_orientation c of
        N \<Rightarrow> (absolute_x c, absolute_y c)
      | S \<Rightarrow> (absolute_x c + cell_width c, absolute_y c + cell_height c)
      | FN \<Rightarrow> (absolute_x c + cell_width c, absolute_y c)
      | FS \<Rightarrow> (absolute_x c, absolute_y c + cell_height c))"

text \<open>\<^verbatim>\<open>left_ori = [FS, N]\<close>; every other orientation takes the second branch.
  Python's \<^verbatim>\<open>%\<close> on integers is the floor modulus, as \<open>mod\<close> on \<open>int\<close> is.\<close>

definition get_orientation_for_row :: "cell \<Rightarrow> real \<Rightarrow> orientation" where
  "get_orientation_for_row c row_y =
     (let grid_y = py_round (row_y / site_height (cell_site_info c));
          left_ori = [FS, N]
      in if cell_orientation c \<in> set left_ori
         then (if grid_y mod 2 = 0 then FS else N)
         else (if grid_y mod 2 = 0 then S else FN))"

definition flip_oritentation :: "cell \<Rightarrow> cell" where
  "flip_oritentation c =
     (case cell_orientation c of
        N \<Rightarrow> c\<lparr>cell_orientation := FN\<rparr>
      | S \<Rightarrow> c\<lparr>cell_orientation := FS\<rparr>
      | FN \<Rightarrow> c\<lparr>cell_orientation := N\<rparr>
      | FS \<Rightarrow> c\<lparr>cell_orientation := S\<rparr>)"

definition get_bbox :: "cell \<Rightarrow> real \<times> real \<times> real \<times> real" where
  "get_bbox c = (bbox_min_x c, bbox_min_y c, bbox_max_x c, bbox_max_y c)"

text \<open>\<^verbatim>\<open>Cell.clone\<close> builds a fresh cell, copies path, site info and absolute position and
  refreshes the grid coordinates; the bounding box stays the one the constructor computed
  from the stored position.\<close>

definition cell_clone :: "cell \<Rightarrow> cell" where
  "cell_clone c =
     cell_update_grid_coordinates
       ((Cell (cell_name c) (cell_x c) (cell_y c) (cell_orientation c) (cell_width c) (cell_height c))
          \<lparr>absolute_x := absolute_x c, absolute_y := absolute_y c,
           cell_path := cell_path c, cell_site_info := cell_site_info c\<rparr>)"

section \<open>Micro\<close>

text \<open>
  A \<^verbatim>\<open>Micro\<close> object is a node of a tree: its scalar attributes, the list of the cells it
  owns and the list of its sub-micros. Every insertion stores a copy (\<^verbatim>\<open>add_cell\<close> and
  \<^verbatim>\<open>add_sub_micro\<close> clone their argument), so the objects reachable from a micro form a
  tree and the tree is a value.

  The attribute \<^verbatim>\<open>parent\<close> is a reference to the micro that holds this one in its
  \<^verbatim>\<open>sub_micros\<close>, or \<^verbatim>\<open>None\<close>. It is read in one place only,
  \<^verbatim>\<open>_update_grid_coordinates\<close>, which looks at the parent's site info and origin.
  The functions that reach that method take what the reference points to, the parent's
  attributes at the time of the call, as their first argument.
\<close>

record micro_attrs =
  micro_name :: string
  origin_x :: real
  origin_y :: real
  description :: string
  micro_site_info :: site_info
  hierarchical_path :: string
  grid_x :: int
  grid_y :: int
  rel_grid_x :: int
  rel_grid_y :: int

datatype micro = MicroObj (attrs: micro_attrs) (cells: "cell list") (sub_micros: "micro list")

text \<open>\<^verbatim>\<open>Micro._update_grid_coordinates\<close>.\<close>

definition update_grid_coordinates :: "micro_attrs option \<Rightarrow> micro_attrs \<Rightarrow> micro_attrs" where
  "update_grid_coordinates parent a =
     (let (gx, gy) = to_grid_coords (micro_site_info a) (origin_x a) (origin_y a)
      in case parent of
           Some pa \<Rightarrow>
             (let (pgx, pgy) = to_grid_coords (micro_site_info pa) (origin_x pa) (origin_y pa)
              in a\<lparr>grid_x := gx, grid_y := gy, rel_grid_x := gx - pgx, rel_grid_y := gy - pgy\<rparr>)
         | None \<Rightarrow> a\<lparr>grid_x := gx, grid_y := gy, rel_grid_x := gx, rel_grid_y := gy\<rparr>)"

text \<open>The body of the loop over the cells in \<^verbatim>\<open>_update_absolute_positions\<close>: the absolute
  position is refreshed from the origin and the orientation is assigned from the row.\<close>

definition update_cell :: "micro_attrs \<Rightarrow> cell \<Rightarrow> cell" where
  "update_cell a c =
     (let c1 = set_absolute_position (origin_x a) (origin_y a) (Some (micro_site_info a)) c;
          cell_orientation = get_orientation_for_row c1 (absolute_y c1)
      in set_orientation cell_orientation c1)"

text \<open>
  \<^verbatim>\<open>set_origin\<close> and \<^verbatim>\<open>_update_absolute_positions\<close> call each other: the second calls
  \<^verbatim>\<open>set_origin\<close> on every sub-micro with the sum of this micro's origin and the origin the
  sub-micro has at that moment. Neither loop changes what the other iterations read, so each
  is a \<open>map\<close>.
\<close>

fun set_origin :: "micro_attrs option \<Rightarrow> real \<Rightarrow> real \<Rightarrow> micro \<Rightarrow> micro"
  and update_absolute_positions :: "micro \<Rightarrow> micro" where
  "set_origin parent x y (MicroObj a cs ss) =
     (let (snapped_x, snapped_y) = snap_to_grid (micro_site_info a) x y;
          a1 = a\<lparr>origin_x := snapped_x, origin_y := snapped_y\<rparr>;
          a2 = update_grid_coordinates parent a1
      in update_absolute_positions (MicroObj a2 cs ss))"
| "update_absolute_positions (MicroObj a cs ss) =
     MicroObj a (map (update_cell a) cs)
       (map (\<lambda>sub_micro. set_origin (Some a)
               (origin_x a + origin_x (attrs sub_micro))
               (origin_y a + origin_y (attrs sub_micro)) sub_micro) ss)"

text \<open>\<^verbatim>\<open>Micro.__init__\<close>. The origin is stored as it is given; \<^verbatim>\<open>site_info or SiteInfo()\<close> takes
  the default grid when no site info is passed.\<close>

definition Micro :: "string \<Rightarrow> real \<Rightarrow> real \<Rightarrow> string \<Rightarrow> site_info option \<Rightarrow> micro" where
  "Micro n ox oy descr so =
     (let si = (case so of Some s \<Rightarrow> s | None \<Rightarrow> default_site);
          (gx, gy) = to_grid_coords si ox oy
      in update_absolute_positions
           (MicroObj \<lparr>micro_name = n, origin_x = ox, origin_y = oy, description = descr,
                      micro_site_info = si, hierarchical_path = n,
                      grid_x = gx, grid_y = gy, rel_grid_x = 0, rel_grid_y = 0\<rparr> [] []))"

fun set_hierarchical_path :: "string \<Rightarrow> micro \<Rightarrow> micro" where
  "set_hierarchical_path parent_path (MicroObj a cs ss) =
     (let a1 = (if parent_path \<noteq> []
                then a\<lparr>hierarchical_path := parent_path @ ''/'' @ micro_name a\<rparr>
                else a\<lparr>hierarchical_path := micro_name a\<rparr>)
      in MicroObj a1
           (map (cell_set_hierarchical_path (hierarchical_path a1)) cs)
           (map (set_hierarchical_path (hierarchical_path a1)) ss))"

fun add_cell :: "micro \<Rightarrow> cell \<Rightarrow> micro" where
  "add_cell (MicroObj a cs ss) c =
     (let cell_cpy = cell_clone c;
          cell_cpy = set_absolute_position (origin_x a) (origin_y a) (Some (micro_site_info a)) cell_cpy;
          cell_cpy = cell_set_hierarchical_path (hierarchical_path a) cell_cpy
      in MicroObj a (cs @ [cell_cpy]) ss)"

definition add_cells :: "micro \<Rightarrow> cell list \<Rightarrow> micro" where
  "add_cells m cs = foldl add_cell m cs"

text \<open>
  \<^verbatim>\<open>add_sub_micro\<close> clones its argument and then works on the clone: it sets the parent
  reference and the path, calls \<^verbatim>\<open>set_origin\<close> with the sum of this micro's origin and the
  clone's, and appends the clone. \<open>attach\<close> is that second part; \<open>add_sub_micro\<close> itself
  follows \<open>clone\<close> below.
\<close>

fun attach :: "micro \<Rightarrow> micro \<Rightarrow> micro" where
  "attach (MicroObj a cs ss) sub_micro_cpy =
     (let cpy = set_hierarchical_path (hierarchical_path a) sub_micro_cpy;
          cpy = set_origin (Some a) (origin_x a + origin_x (attrs cpy))
                  (origin_y a + origin_y (attrs cpy)) cpy
      in MicroObj a cs (ss @ [cpy]))"

text \<open>The number of micros in a tree, the measure for the two recursions that do not
  descend on the tree as it is given.\<close>

fun nodes :: "micro \<Rightarrow> nat" where
  "nodes (MicroObj a cs ss) = Suc (sum_list (map nodes ss))"

text \<open>\<^verbatim>\<open>new_name or self.name\<close>: \<^verbatim>\<open>None\<close> and the empty string both give the micro's name.\<close>

definition py_or :: "string option \<Rightarrow> string \<Rightarrow> string" where
  "py_or new_name dflt = (case new_name of None \<Rightarrow> dflt | Some s \<Rightarrow> if s = [] then dflt else s)"

text \<open>
  \<^verbatim>\<open>Micro.clone\<close>. It calls \<^verbatim>\<open>add_sub_micro(sub_micro.clone())\<close>, and \<^verbatim>\<open>add_sub_micro\<close> clones
  what it is given: every sub-micro is cloned twice before it is attached. The equation
  in the shape of the source is \<open>clone_add_sub_micro\<close> below.
\<close>

function (sequential) clone :: "string option \<Rightarrow> micro \<Rightarrow> micro" where
  "clone new_name (MicroObj a cs ss) =
     (let cloned_micro = Micro (py_or new_name (micro_name a)) (origin_x a) (origin_y a)
            (description a)
            (Some (SiteInfo (site_width (micro_site_info a)) (site_height (micro_site_info a))));
          cloned_micro = foldl (\<lambda>acc c. add_cell acc (cell_clone c)) cloned_micro cs
      in foldl (\<lambda>acc sub_micro. attach acc (clone None (clone None sub_micro))) cloned_micro ss)"
  by pat_completeness auto

lemma sum_nodes_map:
  "(\<And>s. s \<in> set ss \<Longrightarrow> nodes (f s) = nodes s) \<Longrightarrow>
   sum_list (map nodes (map f ss)) = sum_list (map nodes ss)"
  by (induction ss) auto

lemma nodes_set_origin: "nodes (set_origin p x y m) = nodes m"
  and nodes_update_absolute_positions: "nodes (update_absolute_positions m) = nodes m"
proof (induction p x y m and m rule: set_origin_update_absolute_positions.induct)
  case (1 parent x y a cs ss)
  then show ?case by (simp add: Let_def split: prod.splits)
next
  case (2 a cs ss)
  then show ?case by (simp add: sum_nodes_map del: map_map)
qed

lemma nodes_set_hierarchical_path: "nodes (set_hierarchical_path p m) = nodes m"
proof (induction p m rule: set_hierarchical_path.induct)
  case (1 parent_path a cs ss)
  then show ?case by (simp add: Let_def sum_nodes_map del: map_map)
qed

lemma nodes_attach: "nodes (attach m s) = nodes m + nodes s"
  by (cases m) (simp add: Let_def nodes_set_origin nodes_set_hierarchical_path)

lemma nodes_add_cell: "nodes (add_cell m c) = nodes m"
  by (cases m) (simp add: Let_def)

lemma nodes_Micro: "nodes (Micro n ox oy d so) = 1"
  by (simp add: Micro_def Let_def split: prod.splits)

lemma nodes_foldl_add_cell: "nodes (foldl (\<lambda>acc c. add_cell acc (g c)) m cs) = nodes m"
  by (induction cs arbitrary: m) (simp_all add: nodes_add_cell)

lemma nodes_foldl_attach:
  "(\<And>s. s \<in> set ss \<Longrightarrow> nodes (f s) = nodes s) \<Longrightarrow>
   nodes (foldl (\<lambda>acc s. attach acc (f s)) m ss) = nodes m + sum_list (map nodes ss)"
  by (induction ss arbitrary: m) (simp_all add: nodes_attach)

lemma nodes_clone: "clone_dom (n, m) \<Longrightarrow> nodes (clone n m) = nodes m"
proof (induction n m rule: clone.pinduct)
  case (1 new_name a cs ss)
  have "\<And>s. s \<in> set ss \<Longrightarrow> nodes (clone None (clone None s)) = nodes s"
    using 1 by simp
  then show ?case
    using 1(1) by (simp add: clone.psimps Let_def nodes_foldl_attach nodes_foldl_add_cell nodes_Micro)
qed

lemma nodes_member: "s \<in> set ss \<Longrightarrow> nodes s \<le> sum_list (map nodes ss)"
  by (induction ss) auto

termination clone
  apply (relation "measure (\<lambda>(n, m). nodes m)")
    apply simp
   apply (simp add: less_Suc_eq_le nodes_member)
  apply (simp add: less_Suc_eq_le nodes_member nodes_clone)
  done

definition add_sub_micro :: "micro \<Rightarrow> micro \<Rightarrow> micro" where
  "add_sub_micro m sub_micro = attach m (clone None sub_micro)"

lemma clone_add_sub_micro:
  "clone new_name (MicroObj a cs ss) =
     (let cloned_micro = Micro (py_or new_name (micro_name a)) (origin_x a) (origin_y a)
            (description a)
            (Some (SiteInfo (site_width (micro_site_info a)) (site_height (micro_site_info a))));
          cloned_micro = foldl (\<lambda>acc c. add_cell acc (cell_clone c)) cloned_micro cs
      in foldl (\<lambda>acc sub_micro. add_sub_micro acc (clone None sub_micro)) cloned_micro ss)"
  by (simp add: add_sub_micro_def)

definition set_origin_by_grid :: "micro_attrs option \<Rightarrow> int \<Rightarrow> int \<Rightarrow> micro \<Rightarrow> micro" where
  "set_origin_by_grid parent gx gy m =
     (let (x, y) = from_grid_coords (micro_site_info (attrs m)) gx gy
      in set_origin parent x y m)"

text \<open>\<^verbatim>\<open>move_by\<close> snaps the delta and adds it to the origin; the sum is stored as it is, not
  snapped again.\<close>

fun move_by :: "micro_attrs option \<Rightarrow> real \<Rightarrow> real \<Rightarrow> micro \<Rightarrow> micro" where
  "move_by parent dx dy (MicroObj a cs ss) =
     (let (snapped_dx, snapped_dy) = snap_to_grid (micro_site_info a) dx dy;
          a1 = a\<lparr>origin_x := origin_x a + snapped_dx, origin_y := origin_y a + snapped_dy\<rparr>;
          a2 = update_grid_coordinates parent a1
      in update_absolute_positions (MicroObj a2 cs ss))"

definition move_by_grid :: "micro_attrs option \<Rightarrow> int \<Rightarrow> int \<Rightarrow> micro \<Rightarrow> micro" where
  "move_by_grid parent dgrid_x dgrid_y m =
     (let dx = of_int dgrid_x * site_width (micro_site_info (attrs m));
          dy = of_int dgrid_y * site_height (micro_site_info (attrs m))
      in move_by parent dx dy m)"

fun get_all_cells :: "micro \<Rightarrow> cell list" where
  "get_all_cells (MicroObj a cs ss) = cs @ concat (map get_all_cells ss)"

definition calculate_bounding_box :: "micro \<Rightarrow> real \<times> real \<times> real \<times> real" where
  "calculate_bounding_box m =
     (case get_all_cells m of
        [] \<Rightarrow> (0, 0, 0, 0)
      | c # rest \<Rightarrow>
          (fold (\<lambda>c' acc. min acc (fst (get_bbox c'))) rest (fst (get_bbox c)),
           fold (\<lambda>c' acc. min acc (fst (snd (get_bbox c')))) rest (fst (snd (get_bbox c))),
           fold (\<lambda>c' acc. max acc (fst (snd (snd (get_bbox c'))))) rest (fst (snd (snd (get_bbox c)))),
           fold (\<lambda>c' acc. max acc (snd (snd (snd (get_bbox c'))))) rest (snd (snd (snd (get_bbox c))))))"

text \<open>The width \<^verbatim>\<open>max_x - min_x\<close> that \<^verbatim>\<open>flip_horizontal\<close> computes from two calls of
  \<^verbatim>\<open>calculate_bounding_box\<close>, for itself and for each sub-micro. The edges are the cached
  sums \<open>origin + x\<close> and \<open>origin + x + width\<close>, so in floating point the difference is the
  width of the content only where those sums are exact (at origin \<open>x = 0.7\<close> two cells of
  width \<open>0.5\<close> at \<open>0\<close> and \<open>1\<close> give \<open>1.5000000000000002\<close>).\<close>

definition bbox_width :: "micro \<Rightarrow> real" where
  "bbox_width m =
     (let min_x = fst (calculate_bounding_box m);
          max_x = fst (snd (snd (calculate_bounding_box m)))
      in max_x - min_x)"

text \<open>The body of the loop over the cells in \<^verbatim>\<open>flip_horizontal\<close>. The width it subtracts is
  the cached \<^verbatim>\<open>bbox_max_x - bbox_min_x\<close>, not the attribute \<^verbatim>\<open>width\<close>.\<close>

definition flip_cell :: "real \<Rightarrow> site_info \<Rightarrow> cell \<Rightarrow> cell" where
  "flip_cell max_x si c =
     flip_oritentation
       (set_rel_position (max_x - cell_x c - (bbox_max_x c - bbox_min_x c)) (cell_y c) (Some si) c)"

function flip_horizontal :: "micro_attrs option \<Rightarrow> micro \<Rightarrow> micro" where
  "flip_horizontal parent (MicroObj a cs ss) =
     (let max_x = bbox_width (MicroObj a cs ss);
          cs1 = map (flip_cell max_x (micro_site_info a)) cs;
          ss1 = map (\<lambda>sub_micro.
                   flip_horizontal (Some a)
                     (set_origin (Some a)
                        (max_x - origin_x (attrs sub_micro) - bbox_width sub_micro)
                        (origin_y (attrs sub_micro)) sub_micro)) ss;
          a1 = update_grid_coordinates parent a
      in update_absolute_positions (MicroObj a1 cs1 ss1))"
  by pat_completeness auto
termination
  apply (relation "measure (\<lambda>(p, m). nodes m)")
   apply simp
  apply (simp add: less_Suc_eq_le nodes_member nodes_set_origin)
  done

section \<open>Serialisation\<close>

text \<open>
  The dictionaries of \<^verbatim>\<open>Cell.to_dict\<close> and \<^verbatim>\<open>Micro.to_dict\<close>, which \<^verbatim>\<open>json.dump\<close> writes
  and \<^verbatim>\<open>json.load\<close> gives back unchanged. The keys of the cell dictionary that hold a value
  rounded to three decimals (\<^verbatim>\<open>abs_x\<close>, \<^verbatim>\<open>abs_y\<close>, \<^verbatim>\<open>placement_x\<close>, \<^verbatim>\<open>placement_y\<close>,
  \<^verbatim>\<open>bbox\<close>) are left out: no loader reads them. A dictionary that \<^verbatim>\<open>to_dict\<close> produced has
  every key, so the defaults of \<^verbatim>\<open>dict.get\<close> in the loader are never taken; the one
  failure left is \<^verbatim>\<open>Orientation(s)\<close> on a string that names no orientation, the \<open>None\<close> of
  \<open>load_from_dict\<close>.
\<close>

record cell_dict =
  cd_name :: string
  cd_rel_x :: real
  cd_rel_y :: real
  cd_rel_grid_x :: int
  cd_rel_grid_y :: int
  cd_grid_x :: int
  cd_grid_y :: int
  cd_width :: real
  cd_height :: real
  cd_orientation :: string
  cd_hierarchical_path :: string

definition cell_to_dict :: "cell \<Rightarrow> cell_dict" where
  "cell_to_dict c =
     \<lparr>cd_name = cell_name c, cd_rel_x = cell_x c, cd_rel_y = cell_y c,
      cd_rel_grid_x = cell_rel_grid_x c, cd_rel_grid_y = cell_rel_grid_y c,
      cd_grid_x = cell_grid_x c, cd_grid_y = cell_grid_y c,
      cd_width = cell_width c, cd_height = cell_height c,
      cd_orientation = orientation_value (cell_orientation c),
      cd_hierarchical_path = cell_path c\<rparr>"

datatype micro_dict =
  MicroDict (md_name: string) (md_origin_x: real) (md_origin_y: real)
    (md_grid: "int \<times> int") (md_rel_grid: "int \<times> int") (md_site_info: site_info)
    (md_description: string) (md_hierarchical_path: string)
    (md_cells: "cell_dict list") (md_sub_micros: "micro_dict list")
    (md_bounding_box: "real \<times> real \<times> real \<times> real")

fun to_dict :: "micro \<Rightarrow> micro_dict" where
  "to_dict (MicroObj a cs ss) =
     MicroDict (micro_name a) (origin_x a) (origin_y a)
       (grid_x a, grid_y a) (rel_grid_x a, rel_grid_y a)
       (SiteInfo (site_width (micro_site_info a)) (site_height (micro_site_info a)))
       (description a) (hierarchical_path a)
       (map cell_to_dict cs) (map to_dict ss)
       (calculate_bounding_box (MicroObj a cs ss))"

definition load_cell :: "cell_dict \<Rightarrow> cell option" where
  "load_cell cell_data =
     map_option
       (\<lambda>ori. Cell (cd_name cell_data) (cd_rel_x cell_data) (cd_rel_y cell_data) ori
                 (cd_width cell_data) (cd_height cell_data))
       (Orientation (cd_orientation cell_data))"

text \<open>\<^verbatim>\<open>Micro._load_from_dict\<close>; \<^verbatim>\<open>Micro.load_from_file\<close> has the same body, applied to the
  dictionary read from the file.\<close>

fun load_from_dict :: "micro_dict \<Rightarrow> micro option" where
  "load_from_dict (MicroDict name ox oy g rg si descr path cell_datas sub_datas bb) =
     (let site_info = SiteInfo (site_width si) (site_height si);
          micro = Some (Micro name ox oy descr (Some site_info));
          micro = foldl (\<lambda>acc cell_data.
                     Option.bind acc (\<lambda>m.
                       map_option (add_cell m) (load_cell cell_data)))
                   micro cell_datas
      in foldl (\<lambda>acc sub_micro_data.
               Option.bind acc (\<lambda>m.
                 map_option (add_sub_micro m) (load_from_dict sub_micro_data)))
           micro sub_datas)"

section \<open>PlaceCellEngine\<close>



fun pitches_ok :: "micro \<Rightarrow> bool" where
  "pitches_ok (MicroObj a cs ss) \<longleftrightarrow> site_ok (micro_site_info a) \<and> list_all pitches_ok ss"





section \<open>Stated properties\<close>

text \<open>The definitions that the results of the following sections are stated with.\<close>

text \<open>Snapping a pair that has been snapped already.\<close>

definition snap_twice :: "site_info \<Rightarrow> real \<Rightarrow> real \<Rightarrow> real \<times> real" where
  "snap_twice si x y = (let (x1, y1) = snap_to_grid si x y in snap_to_grid si x1 y1)"

text \<open>
  The row rule in the words of the specification: group L is Y-mirrored and canonical
  (\<open>FN\<close>, \<open>N\<close>) and gives \<open>FS\<close> on an even row and \<open>N\<close> on an odd one; group R is the
  rest (\<open>FS\<close>, \<open>S\<close>) and gives \<open>S\<close> on an even row and \<open>FS\<close> on an odd one.
\<close>

definition spec_orientation_for_row :: "cell \<Rightarrow> real \<Rightarrow> orientation" where
  "spec_orientation_for_row c row_y =
     (let j = py_round (row_y / site_height (cell_site_info c))
      in if cell_orientation c \<in> {FN, N}
         then (if even j then FS else N)
         else (if even j then S else FS))"

text \<open>
  A call of one of the methods that move a micro or add to it, and a sequence of such
  calls on the same micro. \<open>parent\<close> is what the micro's \<^verbatim>\<open>parent\<close> attribute points to.
\<close>

datatype call =
    SetOrigin real real
  | SetOriginByGrid int int
  | MoveBy real real
  | MoveByGrid int int
  | AddCell cell
  | AddSubMicro micro
  | FlipHorizontal

fun perform :: "micro_attrs option \<Rightarrow> micro \<Rightarrow> call \<Rightarrow> micro" where
  "perform parent m (SetOrigin x y) = set_origin parent x y m"
| "perform parent m (SetOriginByGrid gx gy) = set_origin_by_grid parent gx gy m"
| "perform parent m (MoveBy dx dy) = move_by parent dx dy m"
| "perform parent m (MoveByGrid dgx dgy) = move_by_grid parent dgx dgy m"
| "perform parent m (AddCell c) = add_cell m c"
| "perform parent m (AddSubMicro s) = add_sub_micro m s"
| "perform parent m FlipHorizontal = flip_horizontal parent m"

definition perform_all :: "micro_attrs option \<Rightarrow> micro \<Rightarrow> call list \<Rightarrow> micro" where
  "perform_all parent m calls = foldl (perform parent) m calls"

text \<open>
  The pitches that the calls divide by. A call on a micro divides by the pitches of the
  micro and of the micros below it (\<open>pitches_ok\<close>; the cells are given their owner's site
  info before anything is divided) and by those of the parent it refers to. A cell or a
  micro that a call adds is cloned first, which divides by the pitches that the cell, or the
  micro and each of its cells, carry: \<open>call_ok\<close>.
\<close>

fun sites_ok :: "micro \<Rightarrow> bool" where
  "sites_ok (MicroObj a cs ss) \<longleftrightarrow>
     site_ok (micro_site_info a) \<and> list_all (\<lambda>c. site_ok (cell_site_info c)) cs \<and>
     list_all sites_ok ss"

fun call_ok :: "call \<Rightarrow> bool" where
  "call_ok (AddCell c) \<longleftrightarrow> site_ok (cell_site_info c)"
| "call_ok (AddSubMicro s) \<longleftrightarrow> sites_ok s"
| "call_ok _ \<longleftrightarrow> True"

definition parent_ok :: "micro_attrs option \<Rightarrow> bool" where
  "parent_ok parent \<longleftrightarrow> (case parent of None \<Rightarrow> True | Some pa \<Rightarrow> site_ok (micro_site_info pa))"

text \<open>
  A cell's absolute position is the origin of the micro that owns it plus its stored
  position, here and in every micro below.
\<close>

definition cell_consistent :: "micro_attrs \<Rightarrow> cell \<Rightarrow> bool" where
  "cell_consistent a c \<longleftrightarrow>
     absolute_x c = origin_x a + cell_x c \<and> absolute_y c = origin_y a + cell_y c"

fun cells_consistent :: "micro \<Rightarrow> bool" where
  "cells_consistent (MicroObj a cs ss) \<longleftrightarrow>
     list_all (cell_consistent a) cs \<and> list_all cells_consistent ss"

text \<open>
  The same in the words of the specification: the absolute position is the sum of the
  origins of all the micros above the cell, from the root (\<open>sum_x\<close>, \<open>sum_y\<close> collect the
  origins of the ancestors already passed) down to its owner, plus its stored position.
\<close>

fun origin_sum_invariant :: "real \<Rightarrow> real \<Rightarrow> micro \<Rightarrow> bool" where
  "origin_sum_invariant sum_x sum_y (MicroObj a cs ss) \<longleftrightarrow>
     list_all (\<lambda>c. absolute_x c = sum_x + origin_x a + cell_x c \<and>
                   absolute_y c = sum_y + origin_y a + cell_y c) cs \<and>
     list_all (origin_sum_invariant (sum_x + origin_x a) (sum_y + origin_y a)) ss"

text \<open>
  Row parity: on an even row of the grid the orientation is \<open>FS\<close> or \<open>S\<close>, on an odd row it
  is \<open>N\<close> or \<open>FN\<close>; \<open>rows_ok\<close> says so of every cell of a micro and of the micros below,
  each on the grid of its owner.
\<close>

definition row_parity_ok :: "site_info \<Rightarrow> cell \<Rightarrow> bool" where
  "row_parity_ok si c \<longleftrightarrow>
     (let j = py_round (absolute_y c / site_height si)
      in if even j then cell_orientation c = FS \<or> cell_orientation c = S
         else cell_orientation c = N \<or> cell_orientation c = FN)"

fun rows_ok :: "micro \<Rightarrow> bool" where
  "rows_ok (MicroObj a cs ss) \<longleftrightarrow>
     list_all (row_parity_ok (micro_site_info a)) cs \<and> list_all rows_ok ss"

text \<open>
  A point is a lattice point of a grid when snapping leaves it where it is, a fixed point of
  \<open>snap_to_grid\<close>. \<open>origins_on_lattice\<close> says so of the origin of a micro and of every micro
  below it, each on its own grid.
\<close>

definition on_lattice :: "site_info \<Rightarrow> real \<Rightarrow> real \<Rightarrow> bool" where
  "on_lattice si x y \<longleftrightarrow>
     x = of_int (py_round (x / site_width si)) * site_width si \<and>
     y = of_int (py_round (y / site_height si)) * site_height si"

fun origins_on_lattice :: "micro \<Rightarrow> bool" where
  "origins_on_lattice (MicroObj a cs ss) \<longleftrightarrow>
     on_lattice (micro_site_info a) (origin_x a) (origin_y a) \<and> list_all origins_on_lattice ss"

text \<open>
  \<^verbatim>\<open>move_by\<close> stores the sum of the origin and the snapped delta and does not snap the sum.
  \<open>move_target\<close> is that sum, and a move lands when the sum is a lattice point. In floating
  point the sum of two lattice points need not be one: on the default grid \<open>0.14 + 1.26\<close> is
  \<open>1.4000000000000004\<close>, which \<open>snap_to_grid\<close> takes to \<open>1.4000000000000001\<close>. So where a
  result needs the sum to be a lattice point, it says so: \<open>call_lands\<close> for one call,
  \<open>calls_land\<close> for the moves of a sequence, each looked at in the state it is made in.
\<close>

definition move_target :: "micro \<Rightarrow> real \<Rightarrow> real \<Rightarrow> real \<times> real" where
  "move_target m dx dy =
     (let (snapped_dx, snapped_dy) = snap_to_grid (micro_site_info (attrs m)) dx dy
      in (origin_x (attrs m) + snapped_dx, origin_y (attrs m) + snapped_dy))"

definition move_lands :: "micro \<Rightarrow> real \<Rightarrow> real \<Rightarrow> bool" where
  "move_lands m dx dy \<longleftrightarrow>
     on_lattice (micro_site_info (attrs m)) (fst (move_target m dx dy)) (snd (move_target m dx dy))"

fun call_lands :: "micro \<Rightarrow> call \<Rightarrow> bool" where
  "call_lands m (MoveBy dx dy) \<longleftrightarrow> move_lands m dx dy"
| "call_lands m (MoveByGrid dgx dgy) \<longleftrightarrow>
     move_lands m (of_int dgx * site_width (micro_site_info (attrs m)))
       (of_int dgy * site_height (micro_site_info (attrs m)))"
| "call_lands m _ \<longleftrightarrow> True"

fun calls_land :: "micro_attrs option \<Rightarrow> micro \<Rightarrow> call list \<Rightarrow> bool" where
  "calls_land parent m [] \<longleftrightarrow> True"
| "calls_land parent m (c # cs) \<longleftrightarrow> call_lands m c \<and> calls_land parent (perform parent m c) cs"

text \<open>
  \<^verbatim>\<open>move_by\<close> in the words of the specification: snap the delta, add it to the current
  origin and hand the sum to \<^verbatim>\<open>set_origin\<close>.
\<close>

definition move_by_spec :: "micro_attrs option \<Rightarrow> real \<Rightarrow> real \<Rightarrow> micro \<Rightarrow> micro" where
  "move_by_spec parent dx dy m =
     (let (snapped_dx, snapped_dy) = snap_to_grid (micro_site_info (attrs m)) dx dy
      in set_origin parent (origin_x (attrs m) + snapped_dx) (origin_y (attrs m) + snapped_dy) m)"

text \<open>
  The mirror pairs \<open>N\<close>/\<open>FN\<close> and \<open>S\<close>/\<open>FS\<close> of the specification and the pairs \<open>N\<close>/\<open>S\<close> and
  \<open>FN\<close>/\<open>FS\<close> of a half turn.
\<close>

fun mirror_partner :: "orientation \<Rightarrow> orientation" where
  "mirror_partner N = FN"
| "mirror_partner FN = N"
| "mirror_partner S = FS"
| "mirror_partner FS = S"

fun rotated_partner :: "orientation \<Rightarrow> orientation" where
  "rotated_partner N = S"
| "rotated_partner S = N"
| "rotated_partner FN = FS"
| "rotated_partner FS = FN"

text \<open>
  The orientation a cell has after \<^verbatim>\<open>flip_horizontal\<close>: the mirror partner of the one it
  had when that one fitted the row, the half-turn partner when it did not.
\<close>

definition orientation_after_flip :: "site_info \<Rightarrow> cell \<Rightarrow> orientation" where
  "orientation_after_flip si c =
     (if row_parity_ok si c then mirror_partner (cell_orientation c)
      else rotated_partner (cell_orientation c))"

text \<open>A container on the unit grid at \<open>(0, oy)\<close> with two cells of width \<open>0.5\<close> at relative
  \<open>x = 0\<close> and \<open>x = 1\<close>.\<close>

abbreviation (input) two_cells :: "real \<Rightarrow> orientation \<Rightarrow> orientation \<Rightarrow> micro" where
  "two_cells oy o1 o2 \<equiv>
     add_cell (add_cell (Micro ''M'' 0 oy '''' (Some (SiteInfo 1 1)))
                 (Cell ''c1'' 0 0 o1 (1 / 2) 1))
       (Cell ''c2'' 1 0 o2 (1 / 2) 1)"



text \<open>On the default grid: a root \<open>A\<close> at \<open>(0.14, 0)\<close>, a sequence of calls on it, and the
  root with a cell and a sub-micro.\<close>

abbreviation (input) default_root :: micro where
  "default_root \<equiv> Micro ''A'' (14 / 100) 0 '''' None"

abbreviation (input) default_calls :: "call list" where
  "default_calls \<equiv>
     [AddSubMicro (add_cell (Micro ''B'' (1 / 4) 0 '''' None) (Cell ''c'' 0 0 N (14 / 100) (9 / 10))),
      MoveBy (14 / 100) (9 / 10), FlipHorizontal, SetOrigin (1 / 3) 5]"

abbreviation (input) default_tree :: micro where
  "default_tree \<equiv>
     add_sub_micro
       (add_cell default_root (Cell ''a'' 0 0 N (14 / 100) (9 / 10)))
       (add_cell (Micro ''B'' 0 (9 / 10) '''' None) (Cell ''c'' 0 0 S (14 / 100) (9 / 10)))"

text \<open>A root \<open>A\<close> at \<open>(1, 0)\<close> on the unit grid to which a micro \<open>B\<close>, constructed at
  \<open>(0, 0)\<close> with one cell at \<open>(0, 0)\<close>, has been added.\<close>

abbreviation (input) placed_tree :: micro where
  "placed_tree \<equiv>
     add_sub_micro (Micro ''A'' 1 0 '''' (Some (SiteInfo 1 1)))
       (add_cell (Micro ''B'' 0 0 '''' (Some (SiteInfo 1 1))) (Cell ''c'' 0 0 N 1 1))"

text \<open>
  What the claims about copies compare: of a cell its name, stored position, absolute
  position, size and orientation; of a micro its name, origin, description and pitches, the
  views of the cells it owns and the names of its sub-micros.
\<close>

definition cell_view ::
  "cell \<Rightarrow> string \<times> (real \<times> real) \<times> (real \<times> real) \<times> (real \<times> real) \<times> orientation" where
  "cell_view c =
     (cell_name c, (cell_x c, cell_y c), (absolute_x c, absolute_y c),
      (cell_width c, cell_height c), cell_orientation c)"

definition root_view ::
  "micro \<Rightarrow> string \<times> (real \<times> real) \<times> string \<times> site_info \<times>
     (string \<times> (real \<times> real) \<times> (real \<times> real) \<times> (real \<times> real) \<times> orientation) list \<times>
     string list" where
  "root_view m =
     (micro_name (attrs m), (origin_x (attrs m), origin_y (attrs m)), description (attrs m),
      micro_site_info (attrs m), map cell_view (cells m),
      map (\<lambda>s. micro_name (attrs s)) (sub_micros m))"

section \<open>Evaluation and arithmetic lemmas\<close>

lemmas cell_defs =
  Cell_def cell_update_bbox_def cell_update_grid_coordinates_def to_grid_coords_def
  default_site_def SiteInfo_def py_round_def Let_def

lemma py_round_of_int: "py_round (of_int k) = k"
  by (simp add: py_round_def Let_def)

lemma cell_upd_simps [simp]:
  "absolute_x (cell_update_grid_coordinates c) = absolute_x c"
  "absolute_y (cell_update_grid_coordinates c) = absolute_y c"
  "cell_x (cell_update_grid_coordinates c) = cell_x c"
  "cell_y (cell_update_grid_coordinates c) = cell_y c"
  "cell_orientation (cell_update_grid_coordinates c) = cell_orientation c"
  "cell_site_info (cell_update_grid_coordinates c) = cell_site_info c"
  "cell_width (cell_update_grid_coordinates c) = cell_width c"
  "cell_height (cell_update_grid_coordinates c) = cell_height c"
  "cell_name (cell_update_grid_coordinates c) = cell_name c"
  "absolute_x (cell_update_bbox c) = absolute_x c"
  "absolute_y (cell_update_bbox c) = absolute_y c"
  "cell_x (cell_update_bbox c) = cell_x c"
  "cell_y (cell_update_bbox c) = cell_y c"
  "cell_orientation (cell_update_bbox c) = cell_orientation c"
  "cell_site_info (cell_update_bbox c) = cell_site_info c"
  "cell_width (cell_update_bbox c) = cell_width c"
  "cell_height (cell_update_bbox c) = cell_height c"
  "cell_name (cell_update_bbox c) = cell_name c"
  by (simp_all add: cell_update_grid_coordinates_def cell_update_bbox_def Let_def split: prod.splits)

lemma set_absolute_position_simps:
  "absolute_x (set_absolute_position ox oy so c) = ox + cell_x c"
  "absolute_y (set_absolute_position ox oy so c) = oy + cell_y c"
  "cell_x (set_absolute_position ox oy so c) = cell_x c"
  "cell_y (set_absolute_position ox oy so c) = cell_y c"
  "cell_orientation (set_absolute_position ox oy so c) = cell_orientation c"
  "cell_site_info (set_absolute_position ox oy (Some si) c) = si"
  by (simp_all add: set_absolute_position_def with_site_def Let_def split: option.splits)

lemma update_cell_consistent: "cell_consistent a (update_cell a c)"
  by (simp add: cell_consistent_def update_cell_def Let_def set_orientation_def
      set_absolute_position_simps)

lemma update_cell_row_parity: "row_parity_ok (micro_site_info a) (update_cell a c)"
  by (simp add: row_parity_ok_def update_cell_def Let_def set_orientation_def
      get_orientation_for_row_def set_absolute_position_simps even_iff_mod_2_eq_zero)

lemma update_grid_coordinates_simps [simp]:
  "origin_x (update_grid_coordinates p a) = origin_x a"
  "origin_y (update_grid_coordinates p a) = origin_y a"
  "micro_site_info (update_grid_coordinates p a) = micro_site_info a"
  "hierarchical_path (update_grid_coordinates p a) = hierarchical_path a"
  "micro_name (update_grid_coordinates p a) = micro_name a"
  "description (update_grid_coordinates p a) = description a"
  by (simp_all add: update_grid_coordinates_def Let_def split: prod.splits option.splits)

lemma cells_consistent_set_origin: "cells_consistent (set_origin p x y m)"
  and cells_consistent_update: "cells_consistent (update_absolute_positions m)"
proof (induction p x y m and m rule: set_origin_update_absolute_positions.induct)
  case (1 parent x y a cs ss)
  then show ?case by (simp add: Let_def split: prod.splits)
next
  case (2 a cs ss)
  then show ?case by (simp add: list_all_iff update_cell_consistent)
qed

lemma rows_ok_set_origin: "rows_ok (set_origin p x y m)"
  and rows_ok_update: "rows_ok (update_absolute_positions m)"
proof (induction p x y m and m rule: set_origin_update_absolute_positions.induct)
  case (1 parent x y a cs ss)
  then show ?case by (simp add: Let_def split: prod.splits)
next
  case (2 a cs ss)
  then show ?case by (simp add: list_all_iff update_cell_row_parity)
qed

lemma cells_consistent_move_by: "cells_consistent (move_by p dx dy m)"
  by (cases m)
    (simp add: Let_def cells_consistent_update split: prod.splits
      del: update_absolute_positions.simps)

lemma rows_ok_move_by: "rows_ok (move_by p dx dy m)"
  by (cases m)
    (simp add: Let_def rows_ok_update split: prod.splits
      del: update_absolute_positions.simps)

lemma cells_consistent_add_cell: "cells_consistent m \<Longrightarrow> cells_consistent (add_cell m c)"
  by (cases m) (simp add: Let_def cell_consistent_def cell_set_hierarchical_path_def
      set_absolute_position_simps)

lemma cells_consistent_attach: "cells_consistent m \<Longrightarrow> cells_consistent (attach m s)"
  by (cases m) (simp add: Let_def cells_consistent_set_origin)

lemma cells_consistent_flip_horizontal: "cells_consistent (flip_horizontal p m)"
  by (cases m) (simp add: Let_def cells_consistent_update del: update_absolute_positions.simps)

lemma cells_consistent_perform:
  "cells_consistent m \<Longrightarrow> cells_consistent (perform p m c)"
  by (cases c) (simp_all add: cells_consistent_set_origin cells_consistent_move_by
      cells_consistent_add_cell cells_consistent_attach add_sub_micro_def
      cells_consistent_flip_horizontal
      set_origin_by_grid_def move_by_grid_def Let_def split: prod.splits)

lemma cells_consistent_perform_all:
  "cells_consistent m \<Longrightarrow> cells_consistent (perform_all p m cs)"
  unfolding perform_all_def
  by (induction cs arbitrary: m) (simp_all add: cells_consistent_perform)

lemma cells_consistent_Micro: "cells_consistent (Micro n ox oy d so)"
  by (simp add: Micro_def Let_def split: prod.splits)

lemma snapped_on_lattice:
  "on_lattice si (fst (snap_to_grid si x y)) (snd (snap_to_grid si x y))"
  by (simp add: on_lattice_def snap_to_grid_def py_round_of_int)

lemma origins_on_lattice_set_origin: "origins_on_lattice (set_origin p x y m)"
  and origins_on_lattice_update:
    "on_lattice (micro_site_info (attrs m)) (origin_x (attrs m)) (origin_y (attrs m)) \<Longrightarrow>
     origins_on_lattice (update_absolute_positions m)"
proof (induction p x y m and m rule: set_origin_update_absolute_positions.induct)
  case (1 parent x y a cs ss)
  obtain sx sy where s: "snap_to_grid (micro_site_info a) x y = (sx, sy)"
    by fastforce
  have "on_lattice (micro_site_info a) sx sy"
    using snapped_on_lattice [of "micro_site_info a" x y] s by simp
  with 1 [OF refl s [symmetric] refl refl]
  have "origins_on_lattice (update_absolute_positions
          (MicroObj (update_grid_coordinates parent (a\<lparr>origin_x := sx, origin_y := sy\<rparr>)) cs ss))"
    by simp
  then show ?case
    by (simp add: s Let_def del: update_absolute_positions.simps)
next
  case (2 a cs ss)
  then show ?case by (simp add: list_all_iff)
qed

lemma attrs_update_absolute_positions [simp]:
  "attrs (update_absolute_positions m) = attrs m"
  by (cases m) simp

lemma move_by_origin:
  "(origin_x (attrs (move_by p dx dy m)), origin_y (attrs (move_by p dx dy m)))
   = move_target m dx dy"
  by (cases m)
    (simp add: move_target_def Let_def case_prod_beta del: update_absolute_positions.simps)

lemma site_move_by: "micro_site_info (attrs (move_by p dx dy m)) = micro_site_info (attrs m)"
  by (cases m) (simp add: Let_def case_prod_beta del: update_absolute_positions.simps)

lemma origins_on_lattice_move_by:
  "move_lands m dx dy \<Longrightarrow> origins_on_lattice (move_by p dx dy m)"
  by (cases m)
    (simp add: move_lands_def move_target_def Let_def case_prod_beta
      origins_on_lattice_update del: update_absolute_positions.simps)

lemma root_on_lattice_move_by:
  assumes "origins_on_lattice (move_by p dx dy m)"
  shows "move_lands m dx dy"
proof -
  have "on_lattice (micro_site_info (attrs (move_by p dx dy m)))
          (origin_x (attrs (move_by p dx dy m))) (origin_y (attrs (move_by p dx dy m)))"
    using assms by (cases "move_by p dx dy m") simp
  moreover have "origin_x (attrs (move_by p dx dy m)) = fst (move_target m dx dy)"
    and "origin_y (attrs (move_by p dx dy m)) = snd (move_target m dx dy)"
    using move_by_origin [of p dx dy m] by (simp_all add: prod_eq_iff)
  ultimately show ?thesis
    by (simp add: move_lands_def site_move_by)
qed

lemma origins_on_lattice_add_cell:
  "origins_on_lattice m \<Longrightarrow> origins_on_lattice (add_cell m c)"
  by (cases m) (simp add: Let_def)

lemma origins_on_lattice_attach:
  "origins_on_lattice m \<Longrightarrow> origins_on_lattice (attach m s)"
  by (cases m) (simp add: Let_def origins_on_lattice_set_origin)

lemma origins_on_lattice_flip_horizontal:
  "origins_on_lattice m \<Longrightarrow> origins_on_lattice (flip_horizontal p m)"
  by (cases m)
    (simp add: Let_def origins_on_lattice_update del: update_absolute_positions.simps)

lemma origins_on_lattice_perform:
  "origins_on_lattice m \<Longrightarrow> call_lands m c \<Longrightarrow> origins_on_lattice (perform p m c)"
  by (cases c) (simp_all add: origins_on_lattice_set_origin origins_on_lattice_move_by
      origins_on_lattice_add_cell origins_on_lattice_attach add_sub_micro_def
      origins_on_lattice_flip_horizontal
      set_origin_by_grid_def move_by_grid_def Let_def split: prod.splits)

lemma origins_on_lattice_perform_all:
  "origins_on_lattice m \<Longrightarrow> calls_land p m cs \<Longrightarrow> origins_on_lattice (perform_all p m cs)"
  unfolding perform_all_def
  by (induction cs arbitrary: m) (simp_all add: origins_on_lattice_perform)

lemma snap_lattice_point:
  "on_lattice si x y \<longleftrightarrow> snap_to_grid si x y = (x, y)"
  by (auto simp: on_lattice_def snap_to_grid_def)

lemma set_origin_origin:
  "(origin_x (attrs (set_origin p x y m)), origin_y (attrs (set_origin p x y m)))
   = snap_to_grid (micro_site_info (attrs m)) x y"
  by (cases m) (simp add: Let_def case_prod_beta del: update_absolute_positions.simps)

lemma flip_cell_simps:
  "cell_x (flip_cell w si c) = w - cell_x c - (bbox_max_x c - bbox_min_x c)"
  "cell_y (flip_cell w si c) = cell_y c"
  "cell_orientation (flip_cell w si c) = mirror_partner (cell_orientation c)"
  by (cases "cell_orientation c";
      simp add: flip_cell_def flip_oritentation_def set_rel_position_def with_site_def)+

lemma update_cell_simps:
  "cell_x (update_cell a c) = cell_x c"
  "cell_y (update_cell a c) = cell_y c"
  "absolute_y (update_cell a c) = origin_y a + cell_y c"
  "cell_orientation (update_cell a c) =
     (let j = py_round ((origin_y a + cell_y c) / site_height (micro_site_info a))
      in if cell_orientation c = FS \<or> cell_orientation c = N
         then (if even j then FS else N)
         else (if even j then S else FN))"
  by (simp_all add: update_cell_def Let_def set_orientation_def set_absolute_position_simps
      get_orientation_for_row_def even_iff_mod_2_eq_zero)

lemma orientation_after_flip_cell:
  assumes "cell_consistent a c"
  shows "cell_orientation (update_cell (update_grid_coordinates p a) (flip_cell w si c))
         = orientation_after_flip (micro_site_info a) c"
  using assms
  by (cases "cell_orientation c")
    (simp_all add: update_cell_simps flip_cell_simps orientation_after_flip_def
      row_parity_ok_def cell_consistent_def Let_def)

lemma attrs_set_origin:
  "micro_name (attrs (set_origin p x y m)) = micro_name (attrs m)"
  "(origin_x (attrs (set_origin p x y m)), origin_y (attrs (set_origin p x y m)))
     = snap_to_grid (micro_site_info (attrs m)) x y"
  by (cases m; simp add: Let_def case_prod_beta del: update_absolute_positions.simps)+

lemma attrs_set_hierarchical_path:
  "micro_name (attrs (set_hierarchical_path p m)) = micro_name (attrs m)"
  "origin_x (attrs (set_hierarchical_path p m)) = origin_x (attrs m)"
  "origin_y (attrs (set_hierarchical_path p m)) = origin_y (attrs m)"
  "micro_site_info (attrs (set_hierarchical_path p m)) = micro_site_info (attrs m)"
  by (cases m; simp add: Let_def)+

lemma attach_simps:
  "attrs (attach m s) = attrs m"
  "cells (attach m s) = cells m"
  "sub_micros (attach m s) =
     sub_micros m @
       [set_origin (Some (attrs m))
          (origin_x (attrs m) + origin_x (attrs s)) (origin_y (attrs m) + origin_y (attrs s))
          (set_hierarchical_path (hierarchical_path (attrs m)) s)]"
  by (cases m; simp add: Let_def attrs_set_hierarchical_path)+

lemma add_cell_simps:
  "attrs (add_cell m c) = attrs m"
  "sub_micros (add_cell m c) = sub_micros m"
  "cells (add_cell m c) =
     cells m @
       [cell_set_hierarchical_path (hierarchical_path (attrs m))
          (set_absolute_position (origin_x (attrs m)) (origin_y (attrs m))
             (Some (micro_site_info (attrs m))) (cell_clone c))]"
  by (cases m; simp add: Let_def)+

lemma foldl_add_cell:
  "attrs (foldl (\<lambda>acc c. add_cell acc (g c)) m cs) = attrs m"
  "sub_micros (foldl (\<lambda>acc c. add_cell acc (g c)) m cs) = sub_micros m"
  "cells (foldl (\<lambda>acc c. add_cell acc (g c)) m cs) =
     cells m @
       map (\<lambda>c. cell_set_hierarchical_path (hierarchical_path (attrs m))
                  (set_absolute_position (origin_x (attrs m)) (origin_y (attrs m))
                     (Some (micro_site_info (attrs m))) (cell_clone (g c)))) cs"
  by (induction cs arbitrary: m; simp add: add_cell_simps)+

lemma foldl_attach:
  "attrs (foldl (\<lambda>acc s. attach acc (g s)) m ss) = attrs m"
  "cells (foldl (\<lambda>acc s. attach acc (g s)) m ss) = cells m"
  "sub_micros (foldl (\<lambda>acc s. attach acc (g s)) m ss) =
     sub_micros m @
       map (\<lambda>s. set_origin (Some (attrs m))
                  (origin_x (attrs m) + origin_x (attrs (g s)))
                  (origin_y (attrs m) + origin_y (attrs (g s)))
                  (set_hierarchical_path (hierarchical_path (attrs m)) (g s))) ss"
  by (induction ss arbitrary: m; simp add: attach_simps)+

lemma Micro_simps:
  "micro_name (attrs (Micro n ox oy d so)) = n"
  "origin_x (attrs (Micro n ox oy d so)) = ox"
  "origin_y (attrs (Micro n ox oy d so)) = oy"
  "description (attrs (Micro n ox oy d so)) = d"
  "micro_site_info (attrs (Micro n ox oy d (Some si))) = si"
  "hierarchical_path (attrs (Micro n ox oy d so)) = n"
  "cells (Micro n ox oy d so) = []"
  "sub_micros (Micro n ox oy d so) = []"
  by (simp_all add: Micro_def Let_def case_prod_beta)

lemma cell_view_added:
  "cell_view (cell_set_hierarchical_path p (set_absolute_position ox oy so (cell_clone c)))
   = (cell_name c, (cell_x c, cell_y c), (ox + cell_x c, oy + cell_y c),
      (cell_width c, cell_height c), cell_orientation c)"
  by (simp add: cell_view_def cell_set_hierarchical_path_def set_absolute_position_def
      with_site_def cell_clone_def Cell_def Let_def split: option.splits)

lemma cell_view_clone: "cell_view (cell_clone c) = cell_view c"
  by (simp add: cell_view_def cell_clone_def Cell_def)

lemma cell_clone_fields:
  "cell_name (cell_clone c) = cell_name c"
  "cell_x (cell_clone c) = cell_x c" "cell_y (cell_clone c) = cell_y c"
  "cell_width (cell_clone c) = cell_width c" "cell_height (cell_clone c) = cell_height c"
  "cell_orientation (cell_clone c) = cell_orientation c"
  by (simp_all add: cell_clone_def Cell_def)

lemma SiteInfo_eta: "SiteInfo (site_width si) (site_height si) = si"
  by (simp add: SiteInfo_def)

lemma name_clone: "micro_name (attrs (clone None m)) = micro_name (attrs m)"
  by (cases m) (simp add: Let_def foldl_attach foldl_add_cell Micro_simps py_or_def)

lemma origin_clone:
  "origin_x (attrs (clone n m)) = origin_x (attrs m)"
  "origin_y (attrs (clone n m)) = origin_y (attrs m)"
  by (cases m; simp add: Let_def foldl_attach foldl_add_cell Micro_simps)+

section \<open>Grid snapping\<close>

text \<open>
  Claim C8. On a grid with nonzero pitches, snapping a pair that \<open>snap_to_grid\<close> returned
  gives the same pair again: \<open>snap(snap(x, y)) = snap(x, y)\<close> for all real \<open>x\<close>, \<open>y\<close>.
\<close>

theorem snap_to_grid_idempotent:
  assumes "site_ok si"
  shows "snap_twice si x y = snap_to_grid si x y"
  using assms by (simp add: snap_twice_def snap_to_grid_def site_ok_def py_round_of_int)

text \<open>The default grid at \<open>(0.2, 1)\<close>: both snaps give \<open>(0.14, 0.9)\<close>.\<close>

theorem snap_to_grid_idempotent_witness:
  "site_ok default_site \<and> snap_twice default_site (1 / 5) 1 = (14 / 100, 9 / 10)"
proof -
  have ok: "site_ok default_site"
    by (simp add: site_ok_def default_site_def SiteInfo_def)
  have "snap_to_grid default_site (1 / 5) 1 = (14 / 100, 9 / 10)"
    by (simp add: snap_to_grid_def default_site_def SiteInfo_def py_round_def Let_def)
  with ok snap_to_grid_idempotent [OF ok, of "1 / 5" 1] show ?thesis by simp
qed

section \<open>Row orientation\<close>

text \<open>
  Claim C2, as the code has it. With \<open>j = round(row_y / pitch_y)\<close>, the groups of
  \<open>get_orientation_for_row\<close> are \<open>{FS, N}\<close> and \<open>{FN, S}\<close>: a cell whose orientation is \<open>FS\<close>
  or \<open>N\<close> gets \<open>FS\<close> on an even row and \<open>N\<close> on an odd row; a cell whose orientation is
  \<open>FN\<close> or \<open>S\<close> gets \<open>S\<close> on an even row and \<open>FN\<close> on an odd row.
\<close>

theorem get_orientation_for_row_table:
  assumes "site_height (cell_site_info c) \<noteq> 0"
  shows "get_orientation_for_row c row_y =
     (let j = py_round (row_y / site_height (cell_site_info c))
      in if cell_orientation c = FS \<or> cell_orientation c = N
         then (if even j then FS else N)
         else (if even j then S else FN))"
  by (simp add: get_orientation_for_row_def Let_def even_iff_mod_2_eq_zero)

text \<open>A Y-mirrored cell on row 1 of the default grid stays Y-mirrored.\<close>

theorem get_orientation_for_row_table_witness:
  "site_height (cell_site_info (Cell ''c'' 0 0 FN 1 1)) \<noteq> 0 \<and>
   get_orientation_for_row (Cell ''c'' 0 0 FN 1 1) (9 / 10) = FN"
  using get_orientation_for_row_table [of "Cell ''c'' 0 0 FN 1 1" "9 / 10"]
  by (simp add: cell_defs)

text \<open>
  The claim as the specification words it puts \<open>FN\<close> in the group that gets \<open>FS\<close> on an
  even row. A Y-mirrored cell on row 0 gets \<open>S\<close> from the code.
\<close>

theorem get_orientation_for_row_counterexample:
  "get_orientation_for_row (Cell ''c'' 0 0 FN 1 1) 0 = S \<and>
   spec_orientation_for_row (Cell ''c'' 0 0 FN 1 1) 0 = FS"
  by (simp add: get_orientation_for_row_def spec_orientation_for_row_def cell_defs)

section \<open>Absolute positions of the cells\<close>

text \<open>
  Claim C1, as the code has it. Take a micro tree in which every cell's absolute position
  is its owner's origin plus its stored position (a freshly constructed micro is one), on
  grids with nonzero pitches. After any sequence of \<^verbatim>\<open>set_origin\<close>, \<^verbatim>\<open>set_origin_by_grid\<close>,
  \<^verbatim>\<open>move_by\<close>, \<^verbatim>\<open>move_by_grid\<close>, \<^verbatim>\<open>add_cell\<close>, \<^verbatim>\<open>add_sub_micro\<close> and \<^verbatim>\<open>flip_horizontal\<close> calls
  on it, the absolute position of every cell of the tree equals the origin of the micro that owns the cell
  plus the cell's stored position.
\<close>

theorem cells_absolute_position_invariant:
  assumes "cells_consistent m" and "pitches_ok m" and "parent_ok parent"
    and "list_all call_ok calls"
  shows "cells_consistent (perform_all parent m calls)"
  using assms(1) by (rule cells_consistent_perform_all)

text \<open>A root at \<open>(1, 0)\<close> that gets a cell and a sub-micro with a cell and is then placed
  and moved.\<close>

theorem cells_absolute_position_invariant_witness:
  "cells_consistent (Micro ''A'' 1 0 '''' (Some (SiteInfo 1 1))) \<and>
   pitches_ok (Micro ''A'' 1 0 '''' (Some (SiteInfo 1 1))) \<and>
   parent_ok None \<and>
   list_all call_ok
     [AddCell (Cell ''a'' 0 0 N 1 1),
      AddSubMicro (add_cell (Micro ''B'' 0 0 '''' (Some (SiteInfo 1 1))) (Cell ''c'' 0 0 N 1 1)),
      SetOrigin 2 1, MoveBy 1 0] \<and>
   cells_consistent
     (perform_all None (Micro ''A'' 1 0 '''' (Some (SiteInfo 1 1)))
        [AddCell (Cell ''a'' 0 0 N 1 1),
         AddSubMicro (add_cell (Micro ''B'' 0 0 '''' (Some (SiteInfo 1 1))) (Cell ''c'' 0 0 N 1 1)),
         SetOrigin 2 1, MoveBy 1 0])"
proof -
  have h1: "cells_consistent (Micro ''A'' 1 0 '''' (Some (SiteInfo 1 1)))"
    by code_simp
  have h2: "pitches_ok (Micro ''A'' 1 0 '''' (Some (SiteInfo 1 1)))"
    by code_simp
  have h3: "parent_ok None"
    by (simp add: parent_ok_def)
  have h4: "list_all call_ok
     [AddCell (Cell ''a'' 0 0 N 1 1),
      AddSubMicro (add_cell (Micro ''B'' 0 0 '''' (Some (SiteInfo 1 1))) (Cell ''c'' 0 0 N 1 1)),
      SetOrigin 2 1, MoveBy 1 0]"
    by code_simp
  from cells_absolute_position_invariant [OF h1 h2 h3 h4] h1 h2 h3 h4 show ?thesis
    by simp
qed

text \<open>
  The claim as the specification words it sums the origins of all ancestors. A sub-micro
  stores the origin that \<^verbatim>\<open>add_sub_micro\<close> gave it, its parent's origin plus its own, so
  the sum counts the parent's origin twice. Root \<open>A\<close> at \<open>(1, 0)\<close> on the unit grid, to
  which a micro \<open>B\<close> at \<open>(0, 0)\<close> holding a cell at \<open>(0, 0)\<close> is added: \<open>B\<close> now has origin
  \<open>(1, 0)\<close>, the cell is at absolute \<open>(1, 0)\<close>, and the origins of its ancestors sum to
  \<open>(2, 0)\<close>.
\<close>

theorem origin_sum_counterexample:
  "\<not> origin_sum_invariant 0 0
       (perform_all None (Micro ''A'' 1 0 '''' (Some (SiteInfo 1 1)))
          [AddSubMicro (add_cell (Micro ''B'' 0 0 '''' (Some (SiteInfo 1 1)))
                          (Cell ''c'' 0 0 N 1 1))])"
  by code_simp

text \<open>
  A call on a micro below the root changes the tree of that micro only, so the invariant of
  the whole tree follows from the invariant of the part that the call returns.
\<close>

lemma cells_consistent_sub_micro:
  assumes "cells_consistent (MicroObj a cs ss)" and "cells_consistent s"
  shows "cells_consistent (MicroObj a cs (ss[i := s]))"
  using assms set_update_subset_insert [of ss i s]
  by (auto simp: list_all_iff)

section \<open>Row parity after an origin update\<close>

text \<open>
  Claim C10. On grids with nonzero pitches, right after \<^verbatim>\<open>set_origin\<close>,
  \<^verbatim>\<open>set_origin_by_grid\<close>, \<^verbatim>\<open>move_by\<close> or \<^verbatim>\<open>move_by_grid\<close> every cell that the micro owns has an
  orientation that fits its row \<open>round(absolute_y / pitch_y)\<close>: \<open>FS\<close> or \<open>S\<close> on an even row,
  \<open>N\<close> or \<open>FN\<close> on an odd row. The same holds in every micro below, which the update
  reaches through \<^verbatim>\<open>set_origin\<close>.
\<close>

theorem row_parity_after_set_origin:
  assumes "pitches_ok m" and "parent_ok parent"
  shows "rows_ok (set_origin parent x y m) \<and>
         rows_ok (set_origin_by_grid parent gx gy m) \<and>
         rows_ok (move_by parent dx dy m) \<and>
         rows_ok (move_by_grid parent dgx dgy m)"
  by (simp add: rows_ok_set_origin rows_ok_move_by set_origin_by_grid_def move_by_grid_def
      Let_def split: prod.splits)

text \<open>A micro whose cell was added canonical on row 0, which does not fit, and a
  sub-micro on a grid of its own.\<close>

theorem row_parity_after_set_origin_witness:
  "pitches_ok (add_sub_micro
       (add_cell (Micro ''A'' 0 0 '''' (Some (SiteInfo 1 1))) (Cell ''a'' 0 0 N 1 1))
       (add_cell (Micro ''B'' 0 1 '''' (Some (SiteInfo 1 2))) (Cell ''c'' 0 1 S 1 1))) \<and>
   parent_ok None \<and>
   \<not> rows_ok (add_sub_micro
       (add_cell (Micro ''A'' 0 0 '''' (Some (SiteInfo 1 1))) (Cell ''a'' 0 0 N 1 1))
       (add_cell (Micro ''B'' 0 1 '''' (Some (SiteInfo 1 2))) (Cell ''c'' 0 1 S 1 1))) \<and>
   rows_ok (set_origin None 3 1 (add_sub_micro
       (add_cell (Micro ''A'' 0 0 '''' (Some (SiteInfo 1 1))) (Cell ''a'' 0 0 N 1 1))
       (add_cell (Micro ''B'' 0 1 '''' (Some (SiteInfo 1 2))) (Cell ''c'' 0 1 S 1 1)))) \<and>
   rows_ok (move_by None 0 1 (add_sub_micro
       (add_cell (Micro ''A'' 0 0 '''' (Some (SiteInfo 1 1))) (Cell ''a'' 0 0 N 1 1))
       (add_cell (Micro ''B'' 0 1 '''' (Some (SiteInfo 1 2))) (Cell ''c'' 0 1 S 1 1))))"
proof -
  have h1: "pitches_ok (add_sub_micro
       (add_cell (Micro ''A'' 0 0 '''' (Some (SiteInfo 1 1))) (Cell ''a'' 0 0 N 1 1))
       (add_cell (Micro ''B'' 0 1 '''' (Some (SiteInfo 1 2))) (Cell ''c'' 0 1 S 1 1)))"
    by code_simp
  have h2: "parent_ok None"
    by (simp add: parent_ok_def)
  have h3: "\<not> rows_ok (add_sub_micro
       (add_cell (Micro ''A'' 0 0 '''' (Some (SiteInfo 1 1))) (Cell ''a'' 0 0 N 1 1))
       (add_cell (Micro ''B'' 0 1 '''' (Some (SiteInfo 1 2))) (Cell ''c'' 0 1 S 1 1)))"
    by code_simp
  from row_parity_after_set_origin [OF h1 h2, of 3 1 0 0 0 1 0 0] h1 h2 h3 show ?thesis
    by simp
qed

section \<open>Origins and the lattice\<close>

text \<open>
  Claim C5, as the code has it. On grids with nonzero pitches, the origin of a micro is a
  lattice point of its grid right after \<^verbatim>\<open>set_origin\<close> or \<^verbatim>\<open>set_origin_by_grid\<close>, and so is
  the origin of every micro below it. After \<^verbatim>\<open>move_by\<close> the origins are lattice points
  exactly when the sum of the old origin and the snapped delta is one, because the sum is
  stored unsnapped. In a tree whose origins are lattice points they remain lattice points
  through any sequence of \<^verbatim>\<open>set_origin\<close>, \<^verbatim>\<open>set_origin_by_grid\<close>, \<^verbatim>\<open>add_cell\<close>,
  \<^verbatim>\<open>add_sub_micro\<close> and \<^verbatim>\<open>flip_horizontal\<close> calls and of \<^verbatim>\<open>move_by\<close> and \<^verbatim>\<open>move_by_grid\<close> calls
  whose sum is a lattice point. The constructor is not among them: it stores the origin it
  is given.
\<close>

theorem origin_on_lattice:
  assumes "pitches_ok m" and "parent_ok parent" and "list_all call_ok calls"
  shows "origins_on_lattice (set_origin parent x y m) \<and>
         origins_on_lattice (set_origin_by_grid parent gx gy m) \<and>
         (origins_on_lattice (move_by parent dx dy m) \<longleftrightarrow> move_lands m dx dy) \<and>
         (origins_on_lattice m \<and> calls_land parent m calls \<longrightarrow>
            origins_on_lattice (perform_all parent m calls))"
  using origins_on_lattice_move_by [of m dx dy parent]
    root_on_lattice_move_by [of parent dx dy m]
  by (auto simp: origins_on_lattice_set_origin origins_on_lattice_perform_all
      set_origin_by_grid_def split: prod.splits)

text \<open>A root at \<open>(0.14, 0)\<close> on the default grid: it gets a sub-micro constructed off the
  lattice, is moved by one site and one row (\<open>0.14 + 0.14\<close> and \<open>0 + 0.9\<close> are lattice
  points), flipped and placed.\<close>

theorem origin_on_lattice_witness:
  "pitches_ok default_root \<and>
   parent_ok None \<and>
   list_all call_ok default_calls \<and>
   origins_on_lattice default_root \<and>
   calls_land None default_root default_calls \<and>
   move_lands default_root (14 / 100) (9 / 10) \<and>
   origins_on_lattice (set_origin None (1 / 4) 0 default_root) \<and>
   origins_on_lattice (move_by None (14 / 100) (9 / 10) default_root) \<and>
   origins_on_lattice (perform_all None default_root default_calls)"
proof -
  have h1: "pitches_ok default_root"
    by code_simp
  have h2: "parent_ok None"
    by (simp add: parent_ok_def)
  have h3: "list_all call_ok default_calls"
    by code_simp
  have h4: "origins_on_lattice default_root"
    by code_simp
  have "move_lands
          (add_sub_micro default_root
             (add_cell (Micro ''B'' (1 / 4) 0 '''' None) (Cell ''c'' 0 0 N (14 / 100) (9 / 10))))
          (14 / 100) (9 / 10)"
    by code_simp
  then have h5: "calls_land None default_root default_calls"
    by (simp only: calls_land.simps call_lands.simps perform.simps simp_thms)
  have h6: "move_lands default_root (14 / 100) (9 / 10)"
    by code_simp
  from origin_on_lattice [OF h1 h2 h3, of "1 / 4" 0 0 0 "14 / 100" "9 / 10"] h1 h2 h3 h4 h5 h6
  show ?thesis
    by blast
qed

text \<open>
  The claim as stated includes construction. \<^verbatim>\<open>Micro("A", 0.25, 0, "", SiteInfo(1, 1))\<close>
  has origin \<open>(0.25, 0)\<close>, which is no lattice point of the unit grid, and \<^verbatim>\<open>move_by(1, 0)\<close>
  takes it to \<open>(1.25, 0)\<close>, which is none either.
\<close>

theorem origin_on_lattice_counterexample:
  "\<not> origins_on_lattice (Micro ''A'' (1 / 4) 0 '''' (Some (SiteInfo 1 1))) \<and>
   \<not> origins_on_lattice (move_by None 1 0 (Micro ''A'' (1 / 4) 0 '''' (Some (SiteInfo 1 1))))"
  by code_simp

section \<open>Moving by a delta\<close>

text \<open>
  Claim C6, as the code has it. On grids with nonzero pitches, \<^verbatim>\<open>move_by(dx, dy)\<close> leaves
  the micro and everything below it in the state that \<^verbatim>\<open>set_origin(ox + sdx, oy + sdy)\<close>
  leaves it in, where \<open>(ox, oy)\<close> is the origin before the call and \<open>(sdx, sdy)\<close> the snapped
  delta, exactly when the sum \<open>(ox + sdx, oy + sdy)\<close> is a lattice point of the grid, that
  is, when \<open>snap_to_grid\<close> returns it unchanged. \<^verbatim>\<open>move_by\<close> stores the sum as it is and
  \<^verbatim>\<open>set_origin\<close> stores what \<open>snap_to_grid\<close> makes of it.
\<close>

theorem move_by_is_set_origin:
  assumes "pitches_ok m" and "parent_ok parent"
  shows "move_by parent dx dy m = move_by_spec parent dx dy m \<longleftrightarrow> move_lands m dx dy"
proof
  assume eq: "move_by parent dx dy m = move_by_spec parent dx dy m"
  have "move_target m dx dy
        = (origin_x (attrs (move_by_spec parent dx dy m)),
           origin_y (attrs (move_by_spec parent dx dy m)))"
    using move_by_origin [of parent dx dy m] by (simp only: eq)
  also have "\<dots> = snap_to_grid (micro_site_info (attrs m))
                     (fst (move_target m dx dy)) (snd (move_target m dx dy))"
    by (simp add: move_by_spec_def move_target_def Let_def case_prod_beta set_origin_origin)
  finally have "snap_to_grid (micro_site_info (attrs m))
                  (fst (move_target m dx dy)) (snd (move_target m dx dy))
                = (fst (move_target m dx dy), snd (move_target m dx dy))"
    by simp
  then show "move_lands m dx dy"
    by (simp only: move_lands_def snap_lattice_point)
next
  assume "move_lands m dx dy"
  then have "snap_to_grid (micro_site_info (attrs m))
               (fst (move_target m dx dy)) (snd (move_target m dx dy))
             = (fst (move_target m dx dy), snd (move_target m dx dy))"
    by (simp only: move_lands_def snap_lattice_point)
  then show "move_by parent dx dy m = move_by_spec parent dx dy m"
    by (cases m)
      (simp add: move_by_spec_def move_target_def Let_def case_prod_beta
        del: update_absolute_positions.simps)
qed

text \<open>The root at \<open>(0.14, 0)\<close> on the default grid with a cell and a sub-micro, moved by one
  site and one row.\<close>

theorem move_by_is_set_origin_witness:
  "pitches_ok default_tree \<and>
   parent_ok None \<and>
   move_lands default_tree (14 / 100) (9 / 10) \<and>
   move_by None (14 / 100) (9 / 10) default_tree
   = move_by_spec None (14 / 100) (9 / 10) default_tree"
proof -
  have h1: "pitches_ok default_tree"
    by code_simp
  have h2: "parent_ok None"
    by (simp add: parent_ok_def)
  have h3: "move_lands default_tree (14 / 100) (9 / 10)"
    by code_simp
  from move_by_is_set_origin [OF h1 h2, of "14 / 100" "9 / 10"] h1 h2 h3 show ?thesis
    by blast
qed

text \<open>
  The claim as stated has no condition on the sum. \<^verbatim>\<open>Micro("A", 0.25, 0, "", SiteInfo(1, 1))\<close>
  keeps the origin \<open>(0.25, 0)\<close> under \<^verbatim>\<open>move_by(0, 0)\<close>, while \<^verbatim>\<open>set_origin(0.25 + 0, 0 + 0)\<close>
  snaps it to \<open>(0, 0)\<close>.
\<close>

theorem move_by_is_set_origin_counterexample:
  "move_by None 0 0 (Micro ''A'' (1 / 4) 0 '''' (Some (SiteInfo 1 1)))
   \<noteq> move_by_spec None 0 0 (Micro ''A'' (1 / 4) 0 '''' (Some (SiteInfo 1 1)))"
  by code_simp

section \<open>Horizontal flip of two cells\<close>

text \<open>
  Claim C7, as the code has it. A container holds exactly two cells, at relative
  \<open>x = 0\<close> and \<open>x = 1\<close> and of width \<open>0.5\<close> each, whose cached bounding boxes are \<open>0.5\<close> wide
  and whose content bounding box is \<open>1.5\<close> wide, as they are when the sums
  \<open>origin + x + width\<close> behind them are exact (at origin \<open>x = 0\<close>, for one). After
  \<^verbatim>\<open>flip_horizontal\<close> their relative \<open>x\<close> coordinates are \<open>1\<close> and \<open>0\<close>. The orientation of each is
  toggled to its mirror partner and then derived again from its row by the refresh that ends
  \<^verbatim>\<open>flip_horizontal\<close>: it is the mirror partner of the orientation before when that one fitted
  the row (\<open>FS\<close> or \<open>S\<close> on an even row, \<open>N\<close> or \<open>FN\<close> on an odd row), and the half-turn
  partner (\<open>N\<close>/\<open>S\<close>, \<open>FN\<close>/\<open>FS\<close>) otherwise.
\<close>

theorem flip_horizontal_two_cells:
  assumes "cell_x c1 = 0" and "cell_x c2 = 1"
    and "cell_width c1 = 1 / 2" and "cell_width c2 = 1 / 2"
    and "bbox_max_x c1 - bbox_min_x c1 = 1 / 2" and "bbox_max_x c2 - bbox_min_x c2 = 1 / 2"
    and "bbox_width (MicroObj a [c1, c2] []) = 3 / 2"
    and "cell_consistent a c1" and "cell_consistent a c2"
    and "site_ok (micro_site_info a)" and "parent_ok parent"
  shows "map cell_x (cells (flip_horizontal parent (MicroObj a [c1, c2] []))) = [1, 0] \<and>
         map cell_orientation (cells (flip_horizontal parent (MicroObj a [c1, c2] [])))
           = map (orientation_after_flip (micro_site_info a)) [c1, c2]"
  using assms(1,2,5,6,8,9)
  by (simp add: assms(7) Let_def update_cell_simps(1) flip_cell_simps(1)
      orientation_after_flip_cell)

text \<open>The container at \<open>(0, 1)\<close> on the unit grid, on row 1, with a canonical and a Y-mirrored
  cell, which fit an odd row: the cells swap places and each takes its mirror partner.\<close>

theorem flip_horizontal_two_cells_witness:
  "cell_x (hd (cells (two_cells 1 N FN))) = 0 \<and>
   cell_x (hd (tl (cells (two_cells 1 N FN)))) = 1 \<and>
   cell_width (hd (cells (two_cells 1 N FN))) = 1 / 2 \<and>
   cell_width (hd (tl (cells (two_cells 1 N FN)))) = 1 / 2 \<and>
   bbox_max_x (hd (cells (two_cells 1 N FN))) - bbox_min_x (hd (cells (two_cells 1 N FN))) = 1 / 2 \<and>
   bbox_max_x (hd (tl (cells (two_cells 1 N FN))))
     - bbox_min_x (hd (tl (cells (two_cells 1 N FN)))) = 1 / 2 \<and>
   bbox_width (two_cells 1 N FN) = 3 / 2 \<and>
   cell_consistent (attrs (two_cells 1 N FN)) (hd (cells (two_cells 1 N FN))) \<and>
   cell_consistent (attrs (two_cells 1 N FN)) (hd (tl (cells (two_cells 1 N FN)))) \<and>
   site_ok (micro_site_info (attrs (two_cells 1 N FN))) \<and>
   parent_ok None \<and>
   map cell_x (cells (flip_horizontal None (two_cells 1 N FN))) = [1, 0] \<and>
   map cell_orientation (cells (flip_horizontal None (two_cells 1 N FN))) = [FN, N]"
proof -
  have eq: "MicroObj (attrs (two_cells 1 N FN))
              [hd (cells (two_cells 1 N FN)), hd (tl (cells (two_cells 1 N FN)))] []
            = two_cells 1 N FN"
    by code_simp
  have h1: "cell_x (hd (cells (two_cells 1 N FN))) = 0" by code_simp
  have h2: "cell_x (hd (tl (cells (two_cells 1 N FN)))) = 1" by code_simp
  have h3: "cell_width (hd (cells (two_cells 1 N FN))) = 1 / 2" by code_simp
  have h4: "cell_width (hd (tl (cells (two_cells 1 N FN)))) = 1 / 2" by code_simp
  have h5: "bbox_max_x (hd (cells (two_cells 1 N FN)))
              - bbox_min_x (hd (cells (two_cells 1 N FN))) = 1 / 2"
    by code_simp
  have h6: "bbox_max_x (hd (tl (cells (two_cells 1 N FN))))
              - bbox_min_x (hd (tl (cells (two_cells 1 N FN)))) = 1 / 2"
    by code_simp
  have h7: "bbox_width (two_cells 1 N FN) = 3 / 2" by code_simp
  have h7': "bbox_width (MicroObj (attrs (two_cells 1 N FN))
              [hd (cells (two_cells 1 N FN)), hd (tl (cells (two_cells 1 N FN)))] []) = 3 / 2"
    using h7 by (simp only: eq)
  have h8: "cell_consistent (attrs (two_cells 1 N FN)) (hd (cells (two_cells 1 N FN)))"
    by code_simp
  have h9: "cell_consistent (attrs (two_cells 1 N FN)) (hd (tl (cells (two_cells 1 N FN))))"
    by code_simp
  have h10: "site_ok (micro_site_info (attrs (two_cells 1 N FN)))" by code_simp
  have h11: "parent_ok None" by (simp add: parent_ok_def)
  have after: "map (orientation_after_flip (micro_site_info (attrs (two_cells 1 N FN))))
                 [hd (cells (two_cells 1 N FN)), hd (tl (cells (two_cells 1 N FN)))] = [FN, N]"
    by code_simp
  from flip_horizontal_two_cells [OF h1 h2 h3 h4 h5 h6 h7' h8 h9 h10 h11]
  have "map cell_x (cells (flip_horizontal None (two_cells 1 N FN))) = [1, 0] \<and>
        map cell_orientation (cells (flip_horizontal None (two_cells 1 N FN))) = [FN, N]"
    by (simp only: eq after)
  with h1 h2 h3 h4 h5 h6 h7 h8 h9 h10 h11 show ?thesis
    by blast
qed

text \<open>
  The claim as stated promises the mirror partner for every orientation. Two canonical
  cells added to a container at \<open>(0, 0)\<close> are on row 0; the flip toggles them to \<open>FN\<close> and the
  refresh then gives \<open>S\<close>, the even-row orientation of the group of \<open>FN\<close>.
\<close>

theorem flip_horizontal_two_cells_counterexample:
  "map cell_x (cells (two_cells 0 N N)) = [0, 1] \<and>
   map cell_width (cells (two_cells 0 N N)) = [1 / 2, 1 / 2] \<and>
   map cell_x (cells (flip_horizontal None (two_cells 0 N N))) = [1, 0] \<and>
   map (\<lambda>c. mirror_partner (cell_orientation c)) (cells (two_cells 0 N N)) = [FN, FN] \<and>
   map cell_orientation (cells (flip_horizontal None (two_cells 0 N N))) = [S, S]"
  by code_simp

section \<open>Lookup in the engine\<close>




section \<open>Serialisation round trip\<close>

text \<open>
  Claim C3 says that loading the dictionary of a micro tree gives back its origins, its
  cells' stored and absolute positions and their orientations. The code at \<open>placed_tree\<close>:
  the sub-micro \<open>B\<close> has origin \<open>(1, 0)\<close> and its cell the absolute position \<open>(1, 0)\<close>; in the
  tree loaded from its dictionary \<open>B\<close> has origin \<open>(2, 0)\<close> and the cell is at \<open>(2, 0)\<close>, because
  the loader hands the loaded \<open>B\<close> to \<^verbatim>\<open>add_sub_micro\<close>, which adds the origin of \<open>A\<close> once more.
\<close>

theorem round_trip_moves_sub_micro:
  "map (\<lambda>s. origin_x (attrs s)) (sub_micros placed_tree) = [1] \<and>
   map absolute_x (get_all_cells placed_tree) = [1] \<and>
   map_option (\<lambda>m. map (\<lambda>s. origin_x (attrs s)) (sub_micros m))
     (load_from_dict (to_dict placed_tree)) = Some [2] \<and>
   map_option (\<lambda>m. map absolute_x (get_all_cells m))
     (load_from_dict (to_dict placed_tree)) = Some [2]"
  by code_simp

section \<open>Clone\<close>

text \<open>
  Claim C4 says that \<^verbatim>\<open>clone\<close> returns a deep copy with the same positions. The code at
  \<open>placed_tree\<close>: the clone has the root's origin \<open>(1, 0)\<close>, but its sub-micro \<open>B\<close> has origin
  \<open>(2, 0)\<close> instead of \<open>(1, 0)\<close> and the cell of \<open>B\<close> the absolute position \<open>(2, 0)\<close> instead of
  \<open>(1, 0)\<close>, because \<^verbatim>\<open>clone\<close> hands the copy of \<open>B\<close> to \<^verbatim>\<open>add_sub_micro\<close>, which adds the origin
  of the new root to the origin that \<open>B\<close> already has.
\<close>

theorem clone_moves_sub_micro:
  "origin_x (attrs (clone None placed_tree)) = origin_x (attrs placed_tree) \<and>
   map (\<lambda>s. origin_x (attrs s)) (sub_micros placed_tree) = [1] \<and>
   map absolute_x (get_all_cells placed_tree) = [1] \<and>
   map (\<lambda>s. origin_x (attrs s)) (sub_micros (clone None placed_tree)) = [2] \<and>
   map absolute_x (get_all_cells (clone None placed_tree)) = [2]"
  by code_simp

section \<open>What a clone and a reloaded tree keep\<close>

text \<open>
  The two results above come from one place: the origin of a sub-micro is stored as
  \<^verbatim>\<open>add_sub_micro\<close> left it, the parent's origin plus its own, and both \<^verbatim>\<open>clone\<close> and the
  loader pass it to \<^verbatim>\<open>add_sub_micro\<close> again. The root and the cells it owns come back as they
  were; each sub-micro comes back at the snapped sum of the root's origin and its own.
\<close>

text \<open>What a clone keeps.\<close>

lemma clone_root_view:
  assumes "list_all (cell_consistent (attrs m)) (cells m)"
  shows "root_view (clone None m) = root_view m"
proof (cases m)
  case (MicroObj a cs ss)
  with assms have "\<And>c. c \<in> set cs \<Longrightarrow> cell_consistent a c"
    by (simp add: list_all_iff)
  then have "map (\<lambda>c. (cell_name c, (cell_x c, cell_y c),
                        (origin_x a + cell_x c, origin_y a + cell_y c),
                        (cell_width c, cell_height c), cell_orientation c)) cs
             = map cell_view cs"
    by (simp add: cell_view_def cell_consistent_def)
  then show ?thesis
    using MicroObj
    by (simp add: root_view_def Let_def foldl_attach foldl_add_cell Micro_simps py_or_def
        cell_view_added cell_clone_fields SiteInfo_eta o_def attrs_set_origin
        attrs_set_hierarchical_path name_clone)
qed

lemma site_clone: "micro_site_info (attrs (clone n m)) = micro_site_info (attrs m)"
  by (cases m) (simp add: Let_def foldl_attach foldl_add_cell Micro_simps SiteInfo_eta)

text \<open>Where a clone puts the sub-micros.\<close>

lemma clone_sub_micro_origins:
  "map (\<lambda>s. (origin_x (attrs s), origin_y (attrs s))) (sub_micros (clone n m))
   = map (\<lambda>s. snap_to_grid (micro_site_info (attrs s))
                 (origin_x (attrs m) + origin_x (attrs s))
                 (origin_y (attrs m) + origin_y (attrs s))) (sub_micros m)"
  by (cases m)
    (simp add: Let_def foldl_attach foldl_add_cell Micro_simps o_def attrs_set_origin
      attrs_set_hierarchical_path origin_clone site_clone)

lemma Orientation_value: "Orientation (orientation_value ori) = Some ori"
  by (cases ori) (simp_all add: Orientation_def)

lemma load_cell_to_dict:
  "load_cell (cell_to_dict c)
   = Some (Cell (cell_name c) (cell_x c) (cell_y c) (cell_orientation c)
             (cell_width c) (cell_height c))"
  by (simp add: load_cell_def cell_to_dict_def Orientation_value)

lemma foldl_bind_Some:
  "(\<And>x. x \<in> set xs \<Longrightarrow> g x = Some (h x)) \<Longrightarrow>
   foldl (\<lambda>acc x. Option.bind acc (\<lambda>m. map_option (f m) (g x))) (Some m0) xs
   = Some (foldl (\<lambda>m x. f m (h x)) m0 xs)"
  by (induction xs arbitrary: m0) simp_all

text \<open>The loader never fails on a dictionary that \<open>to_dict\<close> wrote.\<close>

lemma load_to_dict_Some: "\<exists>m'. load_from_dict (to_dict m) = Some m'"
proof (induction m)
  case (MicroObj a cs ss)
  then have "\<forall>s\<in>set ss. \<exists>m'. load_from_dict (to_dict s) = Some m'"
    by simp
  then obtain r where r: "\<And>s. s \<in> set ss \<Longrightarrow> load_from_dict (to_dict s) = Some (r s)"
    by metis
  have cells: "foldl (\<lambda>acc cell_data.
                  Option.bind acc (\<lambda>m. map_option (add_cell m) (load_cell cell_data)))
                (Some m0) (map cell_to_dict cs)
               = Some (foldl (\<lambda>m d. add_cell m (the (load_cell d))) m0 (map cell_to_dict cs))"
    for m0
    by (rule foldl_bind_Some) (auto simp: load_cell_to_dict)
  have subs: "foldl (\<lambda>acc sub_micro_data.
                 Option.bind acc (\<lambda>m. map_option (add_sub_micro m) (load_from_dict sub_micro_data)))
               (Some m0) (map to_dict ss)
              = Some (foldl (\<lambda>m d. add_sub_micro m (the (load_from_dict d))) m0 (map to_dict ss))"
    for m0
    by (rule foldl_bind_Some) (auto simp: r)
  show ?case
    by (simp add: Let_def cells subs del: foldl_map)
qed

lemma load_to_dict_unfold:
  "load_from_dict (to_dict (MicroObj a cs ss))
   = Some (foldl (\<lambda>acc s. attach acc (clone None (the (load_from_dict (to_dict s)))))
            (foldl (\<lambda>acc c. add_cell acc
                      (Cell (cell_name c) (cell_x c) (cell_y c) (cell_orientation c)
                         (cell_width c) (cell_height c)))
               (Micro (micro_name a) (origin_x a) (origin_y a) (description a)
                  (Some (micro_site_info a))) cs) ss)"
proof -
  have cells: "foldl (\<lambda>acc cell_data.
                  Option.bind acc (\<lambda>m. map_option (add_cell m) (load_cell cell_data)))
                (Some m0) (map cell_to_dict cs)
               = Some (foldl (\<lambda>m c. add_cell m
                         (Cell (cell_name c) (cell_x c) (cell_y c) (cell_orientation c)
                            (cell_width c) (cell_height c))) m0 cs)"
    for m0
    by (induction cs arbitrary: m0) (simp_all add: load_cell_to_dict)
  have subs: "foldl (\<lambda>acc sub_micro_data.
                 Option.bind acc (\<lambda>m. map_option (add_sub_micro m) (load_from_dict sub_micro_data)))
               (Some m0) (map to_dict ss)
              = Some (foldl (\<lambda>acc s. attach acc (clone None (the (load_from_dict (to_dict s))))) m0 ss)"
    for m0
  proof (induction ss arbitrary: m0)
    case Nil
    show ?case by simp
  next
    case (Cons s ss)
    obtain m' where "load_from_dict (to_dict s) = Some m'"
      using load_to_dict_Some by blast
    with Cons show ?case by (simp add: add_sub_micro_def)
  qed
  show ?thesis
    by (simp add: Let_def cells subs SiteInfo_eta del: foldl_map)
qed

lemma loaded_attrs:
  assumes "load_from_dict (to_dict m) = Some m'"
  shows "micro_name (attrs m') = micro_name (attrs m)"
    and "origin_x (attrs m') = origin_x (attrs m)"
    and "origin_y (attrs m') = origin_y (attrs m)"
    and "description (attrs m') = description (attrs m)"
    and "micro_site_info (attrs m') = micro_site_info (attrs m)"
  using assms
  by (cases m; auto simp: load_to_dict_unfold foldl_attach foldl_add_cell Micro_simps
      simp del: load_from_dict.simps to_dict.simps)+

text \<open>What a reloaded tree keeps.\<close>

lemma load_root_view:
  assumes "list_all (cell_consistent (attrs m)) (cells m)"
  shows "map_option root_view (load_from_dict (to_dict m)) = Some (root_view m)"
proof (cases m)
  case (MicroObj a cs ss)
  with assms have "\<And>c. c \<in> set cs \<Longrightarrow> cell_consistent a c"
    by (simp add: list_all_iff)
  then have cells: "map (\<lambda>c. (cell_name c, (cell_x c, cell_y c),
                        (origin_x a + cell_x c, origin_y a + cell_y c),
                        (cell_width c, cell_height c), cell_orientation c)) cs
             = map cell_view cs"
    by (simp add: cell_view_def cell_consistent_def)
  have names: "micro_name (attrs (the (load_from_dict (to_dict s)))) = micro_name (attrs s)" for s
    using load_to_dict_Some [of s] loaded_attrs(1) [of s] by auto
  have Cell_fields: "cell_name (Cell n x y ori w h) = n" "cell_x (Cell n x y ori w h) = x"
    "cell_y (Cell n x y ori w h) = y" "cell_width (Cell n x y ori w h) = w"
    "cell_height (Cell n x y ori w h) = h" "cell_orientation (Cell n x y ori w h) = ori"
    for n x y ori w h
    by (simp_all add: Cell_def)
  show ?thesis
    using MicroObj cells
    by (simp add: load_to_dict_unfold root_view_def foldl_attach foldl_add_cell Micro_simps
        cell_view_added Cell_fields o_def attrs_set_origin attrs_set_hierarchical_path
        name_clone names
        del: load_from_dict.simps to_dict.simps)
qed

text \<open>Where a reloaded tree puts the sub-micros.\<close>

lemma load_sub_micro_origins:
  "map_option (\<lambda>m'. map (\<lambda>s. (origin_x (attrs s), origin_y (attrs s))) (sub_micros m'))
     (load_from_dict (to_dict m))
   = Some (map (\<lambda>s. snap_to_grid (micro_site_info (attrs s))
                       (origin_x (attrs m) + origin_x (attrs s))
                       (origin_y (attrs m) + origin_y (attrs s))) (sub_micros m))"
proof (cases m)
  case (MicroObj a cs ss)
  have loaded: "origin_x (attrs (the (load_from_dict (to_dict s)))) = origin_x (attrs s)"
    "origin_y (attrs (the (load_from_dict (to_dict s)))) = origin_y (attrs s)"
    "micro_site_info (attrs (the (load_from_dict (to_dict s)))) = micro_site_info (attrs s)" for s
    using load_to_dict_Some [of s] loaded_attrs [of s] by auto
  show ?thesis
    using MicroObj
    by (simp add: load_to_dict_unfold foldl_attach foldl_add_cell Micro_simps
        o_def attrs_set_origin attrs_set_hierarchical_path origin_clone site_clone loaded
        del: load_from_dict.simps to_dict.simps)
qed

end
